theory Spec2Isabelle
  imports Complex_Main "HOL-Library.Sublist"
begin

section \<open>Conversation memory and context retrieval of the assistant cog\<close>

text \<open>
  The development embeds \<^verbatim>\<open>assistant/models.py\<close> and the token and embedding helpers of
  \<^verbatim>\<open>assistant/common/utils.py\<close>.

  Conventions of the embedding:
  \<^item> Python \<^verbatim>\<open>int\<close> is \<^typ>\<open>int\<close>, \<^verbatim>\<open>str\<close> is \<^typ>\<open>string\<close>.
  \<^item> Python \<^verbatim>\<open>float\<close> is \<^typ>\<open>rat\<close>: every finite float is a rational number. The products
    \<^verbatim>\<open>max_tokens * 0.95\<close> and \<^verbatim>\<open>max_tokens * 0.9\<close> are taken exactly; for token budgets
    far below \<open>2^50\<close> the rounding of the float product changes neither the comparison with an
    integer token count nor the result of \<^verbatim>\<open>round\<close>. NaN and the infinities are outside the model.
  \<^item> \<^verbatim>\<open>datetime.now().timestamp()\<close> is a parameter \<open>now\<close> of every operation that reads the clock.
  \<^item> The tiktoken encoding (\<^verbatim>\<open>encoding.encode\<close>, \<^verbatim>\<open>encoding.decode\<close>), the similarity function
    \<^verbatim>\<open>cosine_similarity\<close> and the embedding provider \<^verbatim>\<open>get_embedding\<close> belong to other packages;
    they are parameters of the functions that call them.
  \<^item> A raised exception is the \<open>Inl\<close> branch of a sum type.
\<close>

subsection \<open>Exceptions\<close>

datatype error = IndexError | ValueError | OtherException string

subsection \<open>Tokenizer helpers (\<^verbatim>\<open>common/utils.py\<close>)\<close>

text \<open>\<^verbatim>\<open>num_tokens_from_string\<close>: the empty string has no tokens, without asking the encoding.\<close>

definition num_tokens_from_string :: "(string \<Rightarrow> 'tok list) \<Rightarrow> string \<Rightarrow> int" where
  "num_tokens_from_string encode s = (if s = [] then 0 else int (length (encode s)))"

text \<open>
  The first loop of \<^verbatim>\<open>token_pagify\<close>: every token is appended to \<open>current_chunk\<close>; a chunk
  whose length equals \<open>max_tokens\<close> is moved to \<open>token_chunks\<close>. The state is the pair
  \<open>(token_chunks, current_chunk)\<close>. \<open>max_tokens\<close> is a Python int and is only compared for
  equality, so a value below 1 never closes a chunk.
\<close>

fun chunk_loop :: "int \<Rightarrow> 'tok list \<Rightarrow> 'tok list list \<times> 'tok list \<Rightarrow> 'tok list list \<times> 'tok list" where
  "chunk_loop max_tokens [] (token_chunks, current_chunk) = (token_chunks, current_chunk)"
| "chunk_loop max_tokens (token # tokens) (token_chunks, current_chunk) =
     (let current_chunk = current_chunk @ [token]
      in if int (length current_chunk) = max_tokens
         then chunk_loop max_tokens tokens (token_chunks @ [current_chunk], [])
         else chunk_loop max_tokens tokens (token_chunks, current_chunk))"

text \<open>The token chunks after the loop and the final \<^verbatim>\<open>if current_chunk:\<close>.\<close>

definition token_chunks_of :: "int \<Rightarrow> 'tok list \<Rightarrow> 'tok list list" where
  "token_chunks_of max_tokens tokens =
     (case chunk_loop max_tokens tokens ([], []) of
        (token_chunks, current_chunk) \<Rightarrow>
          if current_chunk \<noteq> [] then token_chunks @ [current_chunk] else token_chunks)"

text \<open>\<^verbatim>\<open>token_pagify\<close>: every token chunk is decoded on its own.\<close>

definition token_pagify ::
  "(string \<Rightarrow> 'tok list) \<Rightarrow> ('tok list \<Rightarrow> string) \<Rightarrow> string \<Rightarrow> int \<Rightarrow> string list" where
  "token_pagify encode decode text max_tokens =
     map decode (token_chunks_of max_tokens (encode text))"

text \<open>
  A sample encoding for concrete evaluations: one token per character. The theorems below
  hold for every encoding; this one only instantiates them.
\<close>

definition char_encode :: "string \<Rightarrow> char list" where
  "char_encode s = s"

definition char_decode :: "char list \<Rightarrow> string" where
  "char_decode ts = ts"

subsection \<open>Python built-ins used by the module\<close>

text \<open>\<^verbatim>\<open>xs[k:]\<close> and \<^verbatim>\<open>xs[:k]\<close> for an int \<open>k\<close>: a negative bound counts from the end.\<close>

definition slice_from :: "int \<Rightarrow> 'a list \<Rightarrow> 'a list" where
  "slice_from k xs =
     (if k < 0 then drop (nat (max (int (length xs) + k) 0)) xs else drop (nat k) xs)"

definition slice_to :: "int \<Rightarrow> 'a list \<Rightarrow> 'a list" where
  "slice_to k xs =
     (if k < 0 then take (nat (max (int (length xs) + k) 0)) xs else take (nat k) xs)"

text \<open>\<^verbatim>\<open>round(x)\<close> with one argument: to the nearest integer, a tie to the even one.\<close>

definition py_round :: "rat \<Rightarrow> int" where
  "py_round x =
     (let f = \<lfloor>x\<rfloor>; d = x - of_int f
      in if d < 1 / 2 then f
         else if 1 / 2 < d then f + 1
         else if even f then f else f + 1)"

text \<open>\<^verbatim>\<open>xs.sort(key=f, reverse=True)\<close>: the stable sort of the reversed list, reversed again, so
  that elements with equal keys keep their original order.\<close>

definition sort_reverse :: "('a \<Rightarrow> 'k::linorder) \<Rightarrow> 'a list \<Rightarrow> 'a list" where
  "sort_reverse f xs = rev (sort_key f (rev xs))"

text \<open>The decimal text of an int, as an f-string formats it.\<close>

definition digit_char :: "nat \<Rightarrow> char" where
  "digit_char d = ''0123456789'' ! d"

fun str_nat :: "nat \<Rightarrow> string" where
  "str_nat n = (if n < 10 then [digit_char n] else str_nat (n div 10) @ [digit_char (n mod 10)])"

declare str_nat.simps [simp del]

definition str_int :: "int \<Rightarrow> string" where
  "str_int i = (if i < 0 then CHR ''-'' # str_nat (nat (- i)) else str_nat (nat i))"

subsection \<open>Data model (\<^verbatim>\<open>models.py\<close>)\<close>

record Embedding =
  text' :: string
  embedding :: "rat list"

text \<open>\<^verbatim>\<open>GuildSettings\<close>; the dict \<open>embeddings\<close> is kept in insertion order, as \<^verbatim>\<open>values()\<close> reads it.\<close>

record GuildSettings =
  system_prompt :: string
  prompt :: string
  embeddings :: "(string \<times> Embedding) list"
  top_n :: int
  min_relatedness :: rat
  dynamic_embedding :: bool
  channel_id :: int
  api_key :: string
  endswith_questionmark :: bool
  max_retention :: int
  max_retention_time :: int
  max_tokens :: int
  min_length :: int
  mention :: bool
  enabled :: bool
  model :: string

text \<open>The field defaults of the class.\<close>

definition GuildSettings_default :: GuildSettings where
  "GuildSettings_default =
     \<lparr> system_prompt = ''You are a helpful discord assistant named {botname}'',
       prompt = ''Current time: {timestamp}'' @ [CHR 0x0A]
                  @ ''Discord server you are chatting in: {server}'',
       embeddings = [],
       top_n = 3,
       min_relatedness = 0.75,
       dynamic_embedding = True,
       channel_id = 0,
       api_key = [],
       endswith_questionmark = False,
       max_retention = 0,
       max_retention_time = 1800,
       max_tokens = 4000,
       min_length = 7,
       mention = False,
       enabled = True,
       model = ''gpt-3.5-turbo'' \<rparr>"

text \<open>
  Construction \<^verbatim>\<open>GuildSettings(**kwargs)\<close>. A keyword argument is a field with a value of the
  field's type; the class declares no validator and no constrained type, so a well-typed
  value is stored as it is and a field that is not given takes its default. The result is a
  sum because construction is where a validation error would be raised.
\<close>

datatype kwarg =
    K_system_prompt string
  | K_prompt string
  | K_embeddings "(string \<times> Embedding) list"
  | K_top_n int
  | K_min_relatedness rat
  | K_dynamic_embedding bool
  | K_channel_id int
  | K_api_key string
  | K_endswith_questionmark bool
  | K_max_retention int
  | K_max_retention_time int
  | K_max_tokens int
  | K_min_length int
  | K_mention bool
  | K_enabled bool
  | K_model string

fun set_field :: "kwarg \<Rightarrow> GuildSettings \<Rightarrow> GuildSettings" where
  "set_field (K_system_prompt v) g = g\<lparr>system_prompt := v\<rparr>"
| "set_field (K_prompt v) g = g\<lparr>prompt := v\<rparr>"
| "set_field (K_embeddings v) g = g\<lparr>embeddings := v\<rparr>"
| "set_field (K_top_n v) g = g\<lparr>top_n := v\<rparr>"
| "set_field (K_min_relatedness v) g = g\<lparr>min_relatedness := v\<rparr>"
| "set_field (K_dynamic_embedding v) g = g\<lparr>dynamic_embedding := v\<rparr>"
| "set_field (K_channel_id v) g = g\<lparr>channel_id := v\<rparr>"
| "set_field (K_api_key v) g = g\<lparr>api_key := v\<rparr>"
| "set_field (K_endswith_questionmark v) g = g\<lparr>endswith_questionmark := v\<rparr>"
| "set_field (K_max_retention v) g = g\<lparr>max_retention := v\<rparr>"
| "set_field (K_max_retention_time v) g = g\<lparr>max_retention_time := v\<rparr>"
| "set_field (K_max_tokens v) g = g\<lparr>max_tokens := v\<rparr>"
| "set_field (K_min_length v) g = g\<lparr>min_length := v\<rparr>"
| "set_field (K_mention v) g = g\<lparr>mention := v\<rparr>"
| "set_field (K_enabled v) g = g\<lparr>enabled := v\<rparr>"
| "set_field (K_model v) g = g\<lparr>model := v\<rparr>"

definition GuildSettings_init :: "kwarg list \<Rightarrow> error + GuildSettings" where
  "GuildSettings_init kwargs = Inr (fold set_field kwargs GuildSettings_default)"


subsection \<open>Related embeddings\<close>

text \<open>
  The first list comprehension of \<^verbatim>\<open>get_related_embeddings\<close>: one call of
  \<^verbatim>\<open>cosine_similarity\<close> per stored embedding, in storage order. The function is numpy code
  of another package and raises on vectors it cannot multiply; the first raise ends the
  comprehension.
\<close>

fun score_all ::
  "(rat list \<Rightarrow> rat list \<Rightarrow> error + rat) \<Rightarrow> rat list \<Rightarrow> Embedding list
     \<Rightarrow> error + (string \<times> rat) list" where
  "score_all cosine_similarity query_embedding [] = Inr []"
| "score_all cosine_similarity query_embedding (i # rest) =
     (case cosine_similarity query_embedding (embedding i) of
        Inl e \<Rightarrow> Inl e
      | Inr s \<Rightarrow>
          (case score_all cosine_similarity query_embedding rest of
             Inl e \<Rightarrow> Inl e
           | Inr scored \<Rightarrow> Inr ((text' i, s) # scored)))"

definition get_related_embeddings ::
  "(rat list \<Rightarrow> rat list \<Rightarrow> error + rat) \<Rightarrow> GuildSettings \<Rightarrow> rat list
     \<Rightarrow> error + (string \<times> rat) list" where
  "get_related_embeddings cosine_similarity self query_embedding =
     (if top_n self = 0 \<or> query_embedding = [] \<or> embeddings self = [] then Inr []
      else
        case score_all cosine_similarity query_embedding (map snd (embeddings self)) of
          Inl e \<Rightarrow> Inl e
        | Inr strings_and_relatedness \<Rightarrow>
            Inr (slice_to (top_n self)
                   (sort_reverse snd
                      (filter (\<lambda>i. min_relatedness self \<le> snd i) strings_and_relatedness))))"

text \<open>A sample similarity for concrete evaluations: the dot product, an error on vectors of
  different lengths.\<close>

definition dot_similarity :: "rat list \<Rightarrow> rat list \<Rightarrow> error + rat" where
  "dot_similarity a b =
     (if length a = length b then Inr (sum_list (map (\<lambda>(x, y). x * y) (zip a b)))
      else Inl ValueError)"

subsection \<open>Conversation\<close>

text \<open>A message is the dict \<^verbatim>\<open>{"role": ..., "content": ...}\<close> that \<^verbatim>\<open>update_messages\<close> builds.\<close>

record message =
  role :: string
  content :: string

record Conversation =
  messages :: "message list"
  last_updated :: rat

text \<open>\<^verbatim>\<open>Conversation()\<close>: the field defaults.\<close>

definition Conversation_new :: Conversation where
  "Conversation_new = \<lparr> messages = [], last_updated = 0 \<rparr>"

definition user_token_count :: "(string \<Rightarrow> 'tok list) \<Rightarrow> Conversation \<Rightarrow> int" where
  "user_token_count encode self =
     num_tokens_from_string encode
       (if messages self = [] then [] else concat (map content (messages self)))"

definition conversation_token_count ::
  "(string \<Rightarrow> 'tok list) \<Rightarrow> Conversation \<Rightarrow> GuildSettings \<Rightarrow> int" where
  "conversation_token_count encode self conf =
     num_tokens_from_string encode (system_prompt conf @ prompt conf)
       + user_token_count encode self"

definition is_expired :: "rat \<Rightarrow> Conversation \<Rightarrow> GuildSettings \<Rightarrow> bool" where
  "is_expired now self conf =
     (if max_retention_time conf = 0 then False
      else of_int (max_retention_time conf) < now - last_updated self)"

definition cleanup :: "rat \<Rightarrow> Conversation \<Rightarrow> GuildSettings \<Rightarrow> Conversation" where
  "cleanup now self conf =
     (if is_expired now self conf \<or> max_retention conf = 0 then self\<lparr>messages := []\<rparr>
      else if max_retention conf \<noteq> 0
        then self\<lparr>messages := slice_from (- max_retention conf) (messages self)\<rparr>
      else self)"

definition reset :: "rat \<Rightarrow> Conversation \<Rightarrow> Conversation" where
  "reset now self = self\<lparr>last_updated := now, messages := []\<rparr>"

definition update_messages :: "rat \<Rightarrow> Conversation \<Rightarrow> string \<Rightarrow> string \<Rightarrow> Conversation" where
  "update_messages now self msg role_arg =
     self\<lparr>messages := messages self @ [\<lparr>role = role_arg, content = msg\<rparr>],
          last_updated := now\<rparr>"

text \<open>
  \<^verbatim>\<open>prepare_chat\<close>. The message dicts are objects: \<open>prepared\<close> and \<open>self.messages\<close> hold
  references to the same dicts, and the last statement writes into one of them. The dicts
  of the call live in a store \<open>objs\<close> (address \<open>i\<close> is the \<open>i\<close>-th message at entry),
  \<open>self.messages\<close> is a list of addresses, and an element of \<open>prepared\<close> is a new dict or an
  address. The caller reads the returned list through the store as the call leaves it.
\<close>

datatype turn = Fresh message | Ref nat

fun deref :: "message list \<Rightarrow> turn \<Rightarrow> message" where
  "deref objs (Fresh m) = m"
| "deref objs (Ref a) = objs ! a"

text \<open>The budget test \<^verbatim>\<open>self.conversation_token_count(conf) > conf.max_tokens * 0.95\<close>, with
  \<open>self.messages\<close> read through the store; the time stamp plays no part in the count.\<close>

definition over_budget ::
  "(string \<Rightarrow> 'tok list) \<Rightarrow> GuildSettings \<Rightarrow> message list \<Rightarrow> nat list \<Rightarrow> bool" where
  "over_budget encode conf objs refs =
     (of_int (max_tokens conf) * (0.95 :: rat)
        < of_int (conversation_token_count encode \<lparr>messages = map ((!) objs) refs, last_updated = 0\<rparr> conf))"

text \<open>The \<^verbatim>\<open>while\<close> loop: \<^verbatim>\<open>self.messages.pop(0)\<close> while over budget and more than one
  message is left.\<close>

fun pop_oldest ::
  "(string \<Rightarrow> 'tok list) \<Rightarrow> GuildSettings \<Rightarrow> message list \<Rightarrow> nat list \<Rightarrow> nat list" where
  "pop_oldest encode conf objs refs =
     (if over_budget encode conf objs refs \<and> 1 < length refs
      then pop_oldest encode conf objs (tl refs)
      else refs)"

declare pop_oldest.simps [simp del]

definition prepare_chat ::
  "(string \<Rightarrow> 'tok list) \<Rightarrow> ('tok list \<Rightarrow> string) \<Rightarrow> Conversation \<Rightarrow> GuildSettings
     \<Rightarrow> string \<Rightarrow> string \<Rightarrow> (error + message list) \<times> Conversation" where
  "prepare_chat encode decode self conf system_prompt_arg initial_prompt =
     (let objs = messages self;
          prepared =
            (if system_prompt_arg \<noteq> [] then [Fresh \<lparr>role = ''system'', content = system_prompt_arg\<rparr>]
             else [])
            @ (if initial_prompt \<noteq> [] then [Fresh \<lparr>role = ''user'', content = initial_prompt\<rparr>]
               else [])
            @ map Ref [0 ..< length objs];
          refs = pop_oldest encode conf objs [0 ..< length objs]
      in if over_budget encode conf objs refs then
           (case refs of
              [] \<Rightarrow> (Inl IndexError, self\<lparr>messages := []\<rparr>)
            | a # _ \<Rightarrow>
                (case token_pagify encode decode (content (objs ! a))
                        (py_round (of_int (max_tokens conf) * 0.9)) of
                   [] \<Rightarrow> (Inl IndexError, self\<lparr>messages := map ((!) objs) refs\<rparr>)
                 | chunk # _ \<Rightarrow>
                     (let objs' = objs[a := (objs ! a)\<lparr>content := chunk\<rparr>]
                      in (Inr (map (deref objs') prepared),
                          self\<lparr>messages := map ((!) objs') refs\<rparr>))))
         else (Inr (map (deref objs) prepared), self\<lparr>messages := map ((!) objs) refs\<rparr>))"

subsection \<open>The conversation registry\<close>

text \<open>
  \<^verbatim>\<open>Conversations\<close>. Conversation objects have identity: they live in a heap (a reference is
  an index, a new object is appended) and the dict \<open>conversations\<close> maps a key to a reference.
  A \<^verbatim>\<open>discord.Member\<close> is read only through \<^verbatim>\<open>member.id\<close> and \<^verbatim>\<open>member.guild.id\<close>.
\<close>

record Member =
  member_id :: int
  guild_id :: int

record Conversations =
  conversations :: "string \<rightharpoonup> nat"
  heap :: "Conversation list"

definition Conversations_new :: Conversations where
  "Conversations_new = \<lparr> conversations = Map.empty, heap = [] \<rparr>"

definition conversation_key :: "Member \<Rightarrow> string" where
  "conversation_key member = str_int (member_id member) @ str_int (guild_id member)"

definition get_conversation :: "Conversations \<Rightarrow> Member \<Rightarrow> nat \<times> Conversations" where
  "get_conversation self member =
     (let key = conversation_key member
      in case conversations self key of
           Some r \<Rightarrow> (r, self)
         | None \<Rightarrow>
             (length (heap self),
              self\<lparr>conversations := (conversations self)(key \<mapsto> length (heap self)),
                    heap := heap self @ [Conversation_new]\<rparr>))"

subsection \<open>Fetching an embedding (\<^verbatim>\<open>common/utils.py\<close>)\<close>

text \<open>
  \<^verbatim>\<open>get_embedding_async\<close>. The provider call \<^verbatim>\<open>get_embedding(text, engine)\<close> answers
  differently from call to call: \<open>get_embedding txt engine k\<close> is the outcome of the call made
  when \<open>tries = k\<close>, a vector or an exception derived from \<^verbatim>\<open>Exception\<close>. The result is the
  returned vector, the number of provider calls made and the errors logged.
\<close>

function fetch_loop ::
  "(nat \<Rightarrow> error + rat list) \<Rightarrow> nat \<Rightarrow> error list \<Rightarrow> rat list \<times> nat \<times> error list" where
  "fetch_loop provider tries logged =
     (if tries < 3 then
        (case provider tries of
           Inr embedding_vec \<Rightarrow> (embedding_vec, tries + 1, logged)
         | Inl e \<Rightarrow> fetch_loop provider (tries + 1) (logged @ [e]))
      else ([], tries, logged))"
  by pat_completeness auto
termination
  by (relation "measure (\<lambda>(provider, tries, logged). 3 - tries)") auto

declare fetch_loop.simps [simp del]

definition get_embedding_async ::
  "(string \<Rightarrow> string \<Rightarrow> nat \<Rightarrow> error + rat list) \<Rightarrow> string \<Rightarrow> rat list \<times> nat \<times> error list" where
  "get_embedding_async get_embedding txt =
     fetch_loop (get_embedding txt ''text-embedding-ada-002'') 0 []"


text \<open>A sample store: three embeddings with similarities 0.9, 0.6 and 0.81 to the query \<open>[1]\<close>.\<close>

definition ex_store :: GuildSettings where
  "ex_store = GuildSettings_default
     \<lparr> embeddings := [(''A'', \<lparr>text' = ''a'', embedding = [0.9]\<rparr>),
                      (''B'', \<lparr>text' = ''b'', embedding = [0.6]\<rparr>),
                      (''C'', \<lparr>text' = ''c'', embedding = [0.81]\<rparr>)],
       top_n := 2 \<rparr>"

text \<open>A sample conversation of five messages, last updated at time 1000, and a policy that
  keeps two messages.\<close>

definition ex_history :: Conversation where
  "ex_history =
     \<lparr> messages = [\<lparr>role = ''user'', content = ''one''\<rparr>,
                   \<lparr>role = ''assistant'', content = ''two''\<rparr>,
                   \<lparr>role = ''user'', content = ''three''\<rparr>,
                   \<lparr>role = ''assistant'', content = ''four''\<rparr>,
                   \<lparr>role = ''user'', content = ''five''\<rparr>],
       last_updated = 1000 \<rparr>"

definition ex_keep_two :: GuildSettings where
  "ex_keep_two = GuildSettings_default \<lparr> max_retention := 2 \<rparr>"

text \<open>Two sample providers: one that fails twice and then answers, one that always fails.\<close>

definition ex_flaky :: "string \<Rightarrow> string \<Rightarrow> nat \<Rightarrow> error + rat list" where
  "ex_flaky txt engine k = (if k < 2 then Inl (OtherException ''timeout'') else Inr [1, 0])"

definition ex_down :: "string \<Rightarrow> string \<Rightarrow> nat \<Rightarrow> error + rat list" where
  "ex_down txt engine k = Inl (OtherException ''unavailable'')"

text \<open>Two members: a 17-digit user id in an 18-digit guild, and an 18-digit user id in a
  17-digit guild.\<close>

definition ex_member_a :: Member where
  "ex_member_a = \<lparr> member_id = 12345678901234567, guild_id = 890123456789012345 \<rparr>"

definition ex_member_b :: Member where
  "ex_member_b = \<lparr> member_id = 123456789012345678, guild_id = 90123456789012345 \<rparr>"

text \<open>Sample policies with a budget of 10 tokens (one of them without prompts) and a
  conversation of three messages: two of ten words each and a short one.\<close>

definition ex_tight :: GuildSettings where
  "ex_tight = GuildSettings_default \<lparr> system_prompt := [], prompt := [], max_tokens := 10 \<rparr>"

definition ex_long :: Conversation where
  "ex_long =
     \<lparr> messages = [\<lparr>role = ''user'', content = ''one two three four five six seven eight nine ten''\<rparr>,
                   \<lparr>role = ''assistant'', content = ''ten nine eight seven six five four three two one''\<rparr>,
                   \<lparr>role = ''user'', content = ''ok''\<rparr>],
       last_updated = 1000 \<rparr>"

definition ex_small_budget :: GuildSettings where
  "ex_small_budget = GuildSettings_default \<lparr> max_tokens := 10 \<rparr>"

text \<open>A conversation of one message of 48 characters.\<close>

definition ex_single :: Conversation where
  "ex_single =
     \<lparr> messages = [\<lparr>role = ''user'', content = ''one two three four five six seven eight nine ten''\<rparr>],
       last_updated = 1000 \<rparr>"

section \<open>Properties\<close>

subsection \<open>Splitting by tokens\<close>

lemma step_close:
  "int (length (cur @ [t])) = n \<Longrightarrow>
   chunk_loop n (t # ts) (tcs, cur) = chunk_loop n ts (tcs @ [cur @ [t]], [])"
  by (simp add: Let_def)

lemma step_open:
  "int (length (cur @ [t])) \<noteq> n \<Longrightarrow>
   chunk_loop n (t # ts) (tcs, cur) = chunk_loop n ts (tcs, cur @ [t])"
  by (simp add: Let_def)

lemma chunk_loop_inv:
  assumes "1 \<le> n" and "int (length cur) < n"
    and "\<forall>c \<in> set tcs. int (length c) = n"
    and "chunk_loop n ts (tcs, cur) = (tcs', cur')"
  shows "concat tcs' @ cur' = concat tcs @ cur @ ts
       \<and> (\<forall>c \<in> set tcs'. int (length c) = n) \<and> int (length cur') < n"
  using assms
proof (induction ts arbitrary: tcs cur)
  case Nil
  then show ?case by simp
next
  case (Cons t ts)
  show ?case
  proof (cases "int (length (cur @ [t])) = n")
    case True
    have run: "chunk_loop n ts (tcs @ [cur @ [t]], []) = (tcs', cur')"
      using Cons.prems(4) step_close [OF True] by simp
    have a: "\<forall>c \<in> set (tcs @ [cur @ [t]]). int (length c) = n"
      using Cons.prems(3) True by auto
    have b: "int (length ([]::'a list)) < n"
      using Cons.prems(1) by simp
    have "concat tcs' @ cur' = concat (tcs @ [cur @ [t]]) @ [] @ ts
       \<and> (\<forall>c \<in> set tcs'. int (length c) = n) \<and> int (length cur') < n"
      by (rule Cons.IH [OF Cons.prems(1) b a run])
    then show ?thesis by simp
  next
    case False
    have run: "chunk_loop n ts (tcs, cur @ [t]) = (tcs', cur')"
      using Cons.prems(4) step_open [OF False] by simp
    have b: "int (length (cur @ [t])) < n"
      using Cons.prems(2) False by simp
    have "concat tcs' @ cur' = concat tcs @ (cur @ [t]) @ ts
       \<and> (\<forall>c \<in> set tcs'. int (length c) = n) \<and> int (length cur') < n"
      by (rule Cons.IH [OF Cons.prems(1) b Cons.prems(3) run])
    then show ?thesis by simp
  qed
qed

lemma token_chunks_of_props:
  assumes "1 \<le> n"
  shows "concat (token_chunks_of n ts) = ts"
    and "\<forall>c \<in> set (token_chunks_of n ts). c \<noteq> [] \<and> int (length c) \<le> n"
    and "\<forall>c \<in> set (butlast (token_chunks_of n ts)). int (length c) = n"
proof -
  obtain tcs cur where run: "chunk_loop n ts ([], []) = (tcs, cur)"
    by (cases "chunk_loop n ts ([], [])")
  have inv: "concat tcs @ cur = ts \<and> (\<forall>c \<in> set tcs. int (length c) = n) \<and> int (length cur) < n"
    using chunk_loop_inv [OF assms _ _ run] assms by simp
  have full: "\<forall>c \<in> set tcs. c \<noteq> []"
    using inv assms by auto
  show "concat (token_chunks_of n ts) = ts"
    using inv by (auto simp: token_chunks_of_def run)
  show "\<forall>c \<in> set (token_chunks_of n ts). c \<noteq> [] \<and> int (length c) \<le> n"
    using inv full by (auto simp: token_chunks_of_def run)
  show "\<forall>c \<in> set (butlast (token_chunks_of n ts)). int (length c) = n"
    using inv by (auto simp: token_chunks_of_def run butlast_append dest: in_set_butlastD)
qed

text \<open>
  Claim C9. For every text and every \<open>max_tokens \<ge> 1\<close>, \<^verbatim>\<open>token_pagify\<close> returns the decodings
  of consecutive token chunks of \<open>encode text\<close>: the chunks concatenate to \<open>encode text\<close>, none is
  empty, each holds at most \<open>max_tokens\<close> tokens and every chunk but the last holds exactly
  \<open>max_tokens\<close>. Where a chunk re-encodes to itself, the returned text chunk counts at most
  \<open>max_tokens\<close> tokens, and where all do, re-encoding the returned chunks and concatenating gives
  \<open>encode text\<close>.
\<close>

theorem token_pagify_chunks:
  assumes "1 \<le> n"
  shows "token_pagify encode decode txt n
           = map decode (token_chunks_of n (encode txt))
       \<and> concat (token_chunks_of n (encode txt)) = encode txt
       \<and> (\<forall>c \<in> set (token_chunks_of n (encode txt)).
             c \<noteq> [] \<and> int (length c) \<le> n
             \<and> (encode (decode c) = c \<longrightarrow>
                  num_tokens_from_string encode (decode c) \<le> n))
       \<and> (\<forall>c \<in> set (butlast (token_chunks_of n (encode txt))).
             int (length c) = n)
       \<and> ((\<forall>c \<in> set (token_chunks_of n (encode txt)). encode (decode c) = c) \<longrightarrow>
             concat (map encode (token_pagify encode decode txt n)) = encode txt)"
proof -
  let ?tcs = "token_chunks_of n (encode txt)"
  note props = token_chunks_of_props [OF assms, of "encode txt"]
  have count: "num_tokens_from_string encode (decode c) \<le> n"
    if "c \<in> set ?tcs" "encode (decode c) = c" for c
    using props(2) that assms by (auto simp: num_tokens_from_string_def)
  have reenc: "concat (map encode (token_pagify encode decode txt n)) = encode txt"
    if "\<forall>c \<in> set (token_chunks_of n (encode txt)). encode (decode c) = c"
  proof -
    have "map encode (map decode ?tcs) = ?tcs"
      using that by (simp add: map_idI)
    then show ?thesis
      using props(1) by (simp add: token_pagify_def)
  qed
  show ?thesis
    using props count reenc by (simp add: token_pagify_def)
qed

theorem token_pagify_chunks_witness:
  "(1::int) \<le> 2
   \<and> token_pagify char_encode char_decode ''abcde'' 2 = [''ab'', ''cd'', ''e'']
   \<and> token_chunks_of 2 (char_encode ''abcde'') = [''ab'', ''cd'', ''e'']
   \<and> concat (token_chunks_of 2 (char_encode ''abcde'')) = char_encode ''abcde''
   \<and> num_tokens_from_string char_encode (char_decode ''ab'') \<le> 2
   \<and> concat (map char_encode (token_pagify char_encode char_decode ''abcde'' 2))
       = char_encode ''abcde''"
proof -
  have chunks: "token_chunks_of 2 ''abcde'' = [''ab'', ''cd'', ''e'']"
    by (simp add: token_chunks_of_def)
  show ?thesis
    using token_pagify_chunks [of 2 char_encode char_decode "''abcde''"]
    by (simp add: chunks char_encode_def char_decode_def)
qed

subsection \<open>Ranking of related embeddings\<close>

lemma sort_reverse_stable:
  "filter (\<lambda>y. f y = k) (sort_reverse f xs) = filter (\<lambda>y. f y = k) xs"
proof -
  have "filter (\<lambda>y. f y = k) (sort_reverse f xs)
          = rev (filter (\<lambda>y. f y = k) (sort_key f (rev xs)))"
    by (simp add: sort_reverse_def rev_filter)
  also have "\<dots> = rev (filter (\<lambda>y. f y = k) (rev xs))"
    by (simp only: sort_key_stable)
  also have "\<dots> = filter (\<lambda>y. f y = k) xs"
    by (simp add: rev_filter)
  finally show ?thesis .
qed

lemma sort_reverse_descending:
  "sorted_wrt (\<lambda>a b. f b \<le> f a) (sort_reverse f xs)"
proof -
  have "sorted (map f (sort_key f (rev xs)))"
    by simp
  then have "sorted_wrt (\<lambda>a b. f a \<le> f b) (sort_key f (rev xs))"
    by (simp only: sorted_map)
  then show ?thesis
    by (simp add: sort_reverse_def sorted_wrt_rev)
qed

lemma set_sort_reverse: "set (sort_reverse f xs) = set xs"
  by (simp add: sort_reverse_def)

lemma score_all_sound:
  "score_all cs q es = Inr scored \<Longrightarrow> p \<in> set scored \<Longrightarrow>
     \<exists>i \<in> set es. fst p = text' i \<and> cs q (embedding i) = Inr (snd p)"
proof (induction es arbitrary: scored)
  case Nil
  then show ?case by simp
next
  case (Cons i rest)
  from Cons.prems(1) obtain s tl_scored where
    s: "cs q (embedding i) = Inr s" and
    r: "score_all cs q rest = Inr tl_scored" and
    eq: "scored = (text' i, s) # tl_scored"
    by (auto split: sum.splits)
  show ?case
  proof (cases "p = (text' i, s)")
    case True
    with s show ?thesis by simp
  next
    case False
    with Cons.prems(2) eq have "p \<in> set tl_scored" by simp
    from Cons.IH [OF r this] show ?thesis by auto
  qed
qed

text \<open>A negative bound of \<^verbatim>\<open>xs[:k]\<close> cuts entries off the end instead of bounding the length.\<close>

lemma slice_to_negative:
  assumes "k < 0"
  shows "slice_to k xs = take (length xs - nat (- k)) xs"
proof -
  have "nat (max (int (length xs) + k) 0) = length xs - nat (- k)"
    using assms by arith
  then show ?thesis
    using assms by (simp add: slice_to_def)
qed

text \<open>
  Claim C4. For a policy with \<open>top_n \<ge> 0\<close>, \<^verbatim>\<open>get_related_embeddings\<close> returns the empty list
  (and no error) when \<open>top_n\<close> is 0, the store is empty or the query embedding is empty.
  Whenever it returns a list, the list has at most \<open>top_n\<close> entries; every entry is the text
  of a stored embedding with its similarity to the query, and that similarity is not below
  \<open>min_relatedness\<close>; the similarities are non-increasing; and entries of equal similarity
  come in storage order (for every score, the returned entries with that score are an initial
  segment of the stored entries with that score).
\<close>

theorem get_related_embeddings_ranked:
  assumes "0 \<le> top_n conf"
  shows "(top_n conf = 0 \<or> embeddings conf = [] \<or> q = [] \<longrightarrow>
            get_related_embeddings cs conf q = Inr [])
       \<and> (\<forall>r. get_related_embeddings cs conf q = Inr r \<longrightarrow>
             int (length r) \<le> top_n conf
           \<and> (\<forall>p \<in> set r. min_relatedness conf \<le> snd p
                 \<and> (\<exists>i \<in> set (map snd (embeddings conf)).
                        fst p = text' i \<and> cs q (embedding i) = Inr (snd p)))
           \<and> sorted_wrt (\<lambda>a b. snd b \<le> snd a) r
           \<and> (\<forall>scored. score_all cs q (map snd (embeddings conf)) = Inr scored \<longrightarrow>
                 (\<forall>k. prefix (filter (\<lambda>p. snd p = k) r) (filter (\<lambda>p. snd p = k) scored))))"
proof -
  have guard: "top_n conf = 0 \<or> embeddings conf = [] \<or> q = [] \<longrightarrow>
                 get_related_embeddings cs conf q = Inr []"
    by (auto simp: get_related_embeddings_def)
  have main: "int (length r) \<le> top_n conf
           \<and> (\<forall>p \<in> set r. min_relatedness conf \<le> snd p
                 \<and> (\<exists>i \<in> set (map snd (embeddings conf)).
                        fst p = text' i \<and> cs q (embedding i) = Inr (snd p)))
           \<and> sorted_wrt (\<lambda>a b. snd b \<le> snd a) r
           \<and> (\<forall>scored. score_all cs q (map snd (embeddings conf)) = Inr scored \<longrightarrow>
                 (\<forall>k. prefix (filter (\<lambda>p. snd p = k) r) (filter (\<lambda>p. snd p = k) scored)))"
    if ret: "get_related_embeddings cs conf q = Inr r" for r
  proof (cases "top_n conf = 0 \<or> q = [] \<or> embeddings conf = []")
    case True
    with ret have "r = []"
      by (auto simp: get_related_embeddings_def)
    with assms show ?thesis by simp
  next
    case False
    with ret obtain scored where
      sc: "score_all cs q (map snd (embeddings conf)) = Inr scored" and
      r: "r = slice_to (top_n conf)
                (sort_reverse snd (filter (\<lambda>i. min_relatedness conf \<le> snd i) scored))"
      by (auto simp: get_related_embeddings_def split: sum.splits)
    let ?kept = "filter (\<lambda>i. min_relatedness conf \<le> snd i) scored"
    let ?sorted = "sort_reverse snd ?kept"
    have take: "r = take (nat (top_n conf)) ?sorted"
      using r assms by (simp add: slice_to_def)
    have len: "int (length r) \<le> top_n conf"
      using assms by (simp add: take)
    have sub: "set r \<subseteq> set ?kept"
      using set_take_subset [of "nat (top_n conf)" ?sorted]
      by (simp add: take set_sort_reverse)
    have mem: "min_relatedness conf \<le> snd p
                 \<and> (\<exists>i \<in> set (map snd (embeddings conf)).
                        fst p = text' i \<and> cs q (embedding i) = Inr (snd p))"
      if "p \<in> set r" for p
    proof -
      from that sub have "p \<in> set scored" and "min_relatedness conf \<le> snd p"
        by auto
      with score_all_sound [OF sc] show ?thesis by blast
    qed
    have desc: "sorted_wrt (\<lambda>a b. snd b \<le> snd a) r"
      unfolding take by (rule sorted_wrt_take) (rule sort_reverse_descending)
    have stable: "prefix (filter (\<lambda>p. snd p = k) r) (filter (\<lambda>p. snd p = k) scored)" for k
    proof -
      have "prefix (filter (\<lambda>p. snd p = k) r) (filter (\<lambda>p. snd p = k) ?sorted)"
        unfolding take by (rule filter_mono_prefix) (rule take_is_prefix)
      also have "filter (\<lambda>p. snd p = k) ?sorted = filter (\<lambda>p. snd p = k) ?kept"
        by (rule sort_reverse_stable)
      also have "\<dots> = (if min_relatedness conf \<le> k then filter (\<lambda>p. snd p = k) scored else [])"
        by (induction scored) auto
      finally show ?thesis
        by (simp split: if_splits)
    qed
    show ?thesis
      using len mem desc stable sc by auto
  qed
  show ?thesis
    using guard main by blast
qed

lemma ex_store_related:
  "get_related_embeddings dot_similarity ex_store [1] = Inr [(''a'', 0.9), (''c'', 0.81)]"
  by (simp add: get_related_embeddings_def ex_store_def GuildSettings_default_def
      dot_similarity_def slice_to_def sort_reverse_def)

theorem get_related_embeddings_ranked_witness:
  "0 \<le> top_n ex_store
   \<and> get_related_embeddings dot_similarity ex_store [1] = Inr [(''a'', 0.9), (''c'', 0.81)]
   \<and> int (length [(''a'', 0.9 :: rat), (''c'', 0.81)]) \<le> top_n ex_store
   \<and> min_relatedness ex_store \<le> 0.81
   \<and> sorted_wrt (\<lambda>a b. snd b \<le> snd a) [(''a'', 0.9 :: rat), (''c'', 0.81)]"
proof -
  have nonneg: "0 \<le> top_n ex_store"
    by (simp add: ex_store_def GuildSettings_default_def)
  have "int (length [(''a'', 0.9 :: rat), (''c'', 0.81)]) \<le> top_n ex_store
        \<and> (\<forall>p \<in> set [(''a'', 0.9 :: rat), (''c'', 0.81)]. min_relatedness ex_store \<le> snd p)
        \<and> sorted_wrt (\<lambda>a b. snd b \<le> snd a) [(''a'', 0.9 :: rat), (''c'', 0.81)]"
    using get_related_embeddings_ranked
            [where conf = ex_store and q = "[1]" and cs = dot_similarity, OF nonneg]
          ex_store_related
    by blast
  then show ?thesis
    using nonneg ex_store_related by simp
qed

subsection \<open>Retention: cleanup, reset, update\<close>

lemma slice_from_last:
  "0 < n \<Longrightarrow> slice_from (- n) xs = drop (length xs - nat n) xs"
  by (simp add: slice_from_def nat_diff_distrib' max_def)

text \<open>For a negative \<open>max_retention\<close> the slice \<^verbatim>\<open>messages[-max_retention:]\<close> drops that many
  of the oldest messages.\<close>

lemma cleanup_negative_retention:
  assumes "max_retention conf < 0" and "\<not> is_expired now c conf"
  shows "messages (cleanup now c conf) = drop (nat (- max_retention conf)) (messages c)"
  using assms by (simp add: cleanup_def slice_from_def)

text \<open>
  Claim C5. For a policy whose \<open>max_retention\<close> is a count (not negative): the conversation is
  expired exactly when \<open>max_retention_time\<close> is nonzero and the time since \<open>last_updated\<close>
  exceeds it; \<^verbatim>\<open>cleanup\<close> leaves no message when the conversation is expired or
  \<open>max_retention\<close> is 0; otherwise it leaves exactly the most recent \<open>max_retention\<close> messages
  (all of them when there are fewer), so a conversation that had messages is not emptied.
  \<open>last_updated\<close> is never changed by \<^verbatim>\<open>cleanup\<close>.
\<close>

theorem cleanup_retention:
  assumes "0 \<le> max_retention conf"
  shows "(is_expired now c conf \<longleftrightarrow>
            max_retention_time conf \<noteq> 0
            \<and> of_int (max_retention_time conf) < now - last_updated c)
       \<and> (is_expired now c conf \<or> max_retention conf = 0 \<longrightarrow>
            messages (cleanup now c conf) = [])
       \<and> (\<not> (is_expired now c conf \<or> max_retention conf = 0) \<longrightarrow>
            messages (cleanup now c conf)
              = drop (length (messages c) - nat (max_retention conf)) (messages c)
            \<and> (messages c \<noteq> [] \<longrightarrow> messages (cleanup now c conf) \<noteq> []))
       \<and> last_updated (cleanup now c conf) = last_updated c"
proof -
  have exp: "is_expired now c conf \<longleftrightarrow>
               max_retention_time conf \<noteq> 0
               \<and> of_int (max_retention_time conf) < now - last_updated c"
    by (simp add: is_expired_def)
  have clear: "messages (cleanup now c conf) = []"
    if "is_expired now c conf \<or> max_retention conf = 0"
    using that by (simp add: cleanup_def)
  have keep: "messages (cleanup now c conf)
                = drop (length (messages c) - nat (max_retention conf)) (messages c)
              \<and> (messages c \<noteq> [] \<longrightarrow> messages (cleanup now c conf) \<noteq> [])"
    if no: "\<not> (is_expired now c conf \<or> max_retention conf = 0)"
  proof -
    from no assms have pos: "0 < max_retention conf" by simp
    have eq: "messages (cleanup now c conf)
                = drop (length (messages c) - nat (max_retention conf)) (messages c)"
      using no pos by (simp add: cleanup_def slice_from_last)
    have "length (messages c) - nat (max_retention conf) < length (messages c)"
      if "messages c \<noteq> []"
      using that pos by (cases "messages c") auto
    then show ?thesis
      using eq by auto
  qed
  have stamp: "last_updated (cleanup now c conf) = last_updated c"
    by (simp add: cleanup_def)
  show ?thesis
    using exp clear keep stamp by blast
qed

theorem cleanup_retention_witness:
  "0 \<le> max_retention ex_keep_two
   \<and> \<not> (is_expired 1500 ex_history ex_keep_two \<or> max_retention ex_keep_two = 0)
   \<and> messages (cleanup 1500 ex_history ex_keep_two)
       = [\<lparr>role = ''assistant'', content = ''four''\<rparr>, \<lparr>role = ''user'', content = ''five''\<rparr>]
   \<and> is_expired 4600 ex_history ex_keep_two
   \<and> messages (cleanup 4600 ex_history ex_keep_two) = []"
proof -
  have nonneg: "0 \<le> max_retention ex_keep_two"
    by (simp add: ex_keep_two_def GuildSettings_default_def)
  have fresh: "\<not> (is_expired 1500 ex_history ex_keep_two \<or> max_retention ex_keep_two = 0)"
    by (simp add: is_expired_def ex_keep_two_def ex_history_def GuildSettings_default_def)
  have stale: "is_expired 4600 ex_history ex_keep_two"
    by (simp add: is_expired_def ex_keep_two_def ex_history_def GuildSettings_default_def)
  have two: "drop (length (messages ex_history) - nat (max_retention ex_keep_two))
               (messages ex_history)
             = [\<lparr>role = ''assistant'', content = ''four''\<rparr>, \<lparr>role = ''user'', content = ''five''\<rparr>]"
    by (simp add: ex_keep_two_def ex_history_def GuildSettings_default_def)
  show ?thesis
    using cleanup_retention [OF nonneg, of 1500 ex_history]
          cleanup_retention [OF nonneg, of 4600 ex_history]
          nonneg fresh stale two
    by simp
qed

text \<open>
  Claim C6. \<^verbatim>\<open>reset\<close> empties the message list and sets \<open>last_updated\<close> to the current time;
  \<^verbatim>\<open>cleanup\<close> of an expired conversation empties the message list and leaves \<open>last_updated\<close>
  as it was.
\<close>

theorem reset_and_cleanup_last_updated:
  "messages (reset now c) = [] \<and> last_updated (reset now c) = now
   \<and> (is_expired now c conf \<longrightarrow>
        messages (cleanup now c conf) = [] \<and> last_updated (cleanup now c conf) = last_updated c)"
  by (simp add: reset_def cleanup_def)

theorem reset_and_cleanup_last_updated_witness:
  "is_expired 4600 ex_history GuildSettings_default
   \<and> messages (cleanup 4600 ex_history GuildSettings_default) = []
   \<and> last_updated (cleanup 4600 ex_history GuildSettings_default) = 1000
   \<and> messages (reset 4600 ex_history) = []
   \<and> last_updated (reset 4600 ex_history) = 4600"
proof -
  have stale: "is_expired 4600 ex_history GuildSettings_default"
    by (simp add: is_expired_def ex_history_def GuildSettings_default_def)
  have stamp: "last_updated ex_history = 1000"
    by (simp add: ex_history_def)
  show ?thesis
    using reset_and_cleanup_last_updated [of 4600 ex_history GuildSettings_default] stale stamp
    by simp
qed

text \<open>
  Claim C10. For every role string and every content string, \<^verbatim>\<open>update_messages\<close> appends the
  one turn \<open>{role, content}\<close> at the end of the message list, keeps the earlier messages and
  sets \<open>last_updated\<close> to the current time; the role is not checked, and the conversation has
  no other field.
\<close>

theorem update_messages_appends:
  "update_messages now c msg r
     = \<lparr> messages = messages c @ [\<lparr>role = r, content = msg\<rparr>], last_updated = now \<rparr>
   \<and> length (messages (update_messages now c msg r)) = Suc (length (messages c))
   \<and> take (length (messages c)) (messages (update_messages now c msg r)) = messages c"
  by (simp add: update_messages_def)

theorem update_messages_appends_witness:
  "messages (update_messages 2000 ex_history ''hello'' ''moderator'')
     = messages ex_history @ [\<lparr>role = ''moderator'', content = ''hello''\<rparr>]
   \<and> last_updated (update_messages 2000 ex_history ''hello'' ''moderator'') = 2000"
  using update_messages_appends [of 2000 ex_history "''hello''" "''moderator''"]
  by simp

subsection \<open>Fetching an embedding\<close>

lemma fetch_loop_result:
  assumes "fetch_loop p tries logged = (vec, calls, out)" and "tries \<le> 3"
  shows "(\<exists>k. tries \<le> k \<and> k < 3 \<and> p k = Inr vec
              \<and> (\<forall>j. tries \<le> j \<and> j < k \<longrightarrow> (\<exists>e. p j = Inl e))
              \<and> calls = k + 1 \<and> length out = length logged + (k - tries))
       \<or> ((\<forall>j. tries \<le> j \<and> j < 3 \<longrightarrow> (\<exists>e. p j = Inl e))
            \<and> vec = [] \<and> calls = 3 \<and> length out = length logged + (3 - tries))"
  using assms
proof (induction p tries logged rule: fetch_loop.induct)
  case (1 p tries logged)
  show ?case
  proof (cases "tries < 3")
    case False
    with "1.prems" have "tries = 3" and "vec = []" and "calls = 3" and "out = logged"
      by (simp_all add: fetch_loop.simps)
    then show ?thesis by auto
  next
    case True
    show ?thesis
    proof (cases "p tries")
      case (Inr v)
      with True "1.prems"(1) have "vec = v" "calls = tries + 1" "out = logged"
        by (simp_all add: fetch_loop.simps)
      with True Inr have "tries \<le> tries \<and> tries < 3 \<and> p tries = Inr vec
              \<and> (\<forall>j. tries \<le> j \<and> j < tries \<longrightarrow> (\<exists>e. p j = Inl e))
              \<and> calls = tries + 1 \<and> length out = length logged + (tries - tries)"
        by auto
      then show ?thesis by blast
    next
      case (Inl e)
      with True "1.prems"(1) have
        run: "fetch_loop p (tries + 1) (logged @ [e]) = (vec, calls, out)"
        by (simp add: fetch_loop.simps)
      from True have le: "tries + 1 \<le> 3" by simp
      note ih = "1.IH" [OF True Inl run le]
      have below: "(\<exists>e. p j = Inl e)" if "tries \<le> j" "j < tries + 1" for j
        using that Inl by (cases "j = tries") auto
      from ih show ?thesis
      proof
        assume "\<exists>k. tries + 1 \<le> k \<and> k < 3 \<and> p k = Inr vec
              \<and> (\<forall>j. tries + 1 \<le> j \<and> j < k \<longrightarrow> (\<exists>e. p j = Inl e))
              \<and> calls = k + 1 \<and> length out = length (logged @ [e]) + (k - (tries + 1))"
        then obtain k where k: "tries + 1 \<le> k" "k < 3" "p k = Inr vec"
            "\<forall>j. tries + 1 \<le> j \<and> j < k \<longrightarrow> (\<exists>e. p j = Inl e)"
            "calls = k + 1" "length out = length (logged @ [e]) + (k - (tries + 1))"
          by blast
        have "\<forall>j. tries \<le> j \<and> j < k \<longrightarrow> (\<exists>e. p j = Inl e)"
          using k(4) below by (metis not_less)
        moreover have "length out = length logged + (k - tries)"
          using k(1) k(6) by simp
        moreover have "tries \<le> k" using k(1) by simp
        ultimately show ?thesis
          using k(2,3,5) by blast
      next
        assume all: "(\<forall>j. tries + 1 \<le> j \<and> j < 3 \<longrightarrow> (\<exists>e. p j = Inl e))
            \<and> vec = [] \<and> calls = 3 \<and> length out = length (logged @ [e]) + (3 - (tries + 1))"
        have "\<forall>j. tries \<le> j \<and> j < 3 \<longrightarrow> (\<exists>e. p j = Inl e)"
          using all below by (metis not_less)
        moreover have "length out = length logged + (3 - tries)"
          using all True by simp
        ultimately show ?thesis
          using all by blast
      qed
    qed
  qed
qed

text \<open>
  Claim C7. \<^verbatim>\<open>get_embedding_async\<close> always returns a vector and calls the provider at most
  three times: either some call \<open>k < 3\<close> is the first that answers, its vector is returned
  after \<open>k + 1\<close> calls and the \<open>k\<close> earlier exceptions were logged; or all three calls raise,
  the three exceptions are logged and the empty vector is returned. No exception of the
  provider is raised by the function.
\<close>

theorem get_embedding_async_three_tries:
  "(case get_embedding_async get_embedding txt of
      (vec, calls, logged) \<Rightarrow>
        calls \<le> 3
      \<and> ((\<exists>k<3. get_embedding txt ''text-embedding-ada-002'' k = Inr vec
                \<and> (\<forall>j<k. \<exists>e. get_embedding txt ''text-embedding-ada-002'' j = Inl e)
                \<and> calls = k + 1 \<and> length logged = k)
          \<or> ((\<forall>j<3. \<exists>e. get_embedding txt ''text-embedding-ada-002'' j = Inl e)
               \<and> vec = [] \<and> calls = 3 \<and> length logged = 3)))"
proof -
  obtain vec calls logged where
    run: "fetch_loop (get_embedding txt ''text-embedding-ada-002'') 0 [] = (vec, calls, logged)"
    by (cases "fetch_loop (get_embedding txt ''text-embedding-ada-002'') 0 []")
  from fetch_loop_result [OF run] show ?thesis
    by (auto simp: get_embedding_async_def run)
qed

theorem get_embedding_async_three_tries_witness:
  "ex_down ''hi'' ''text-embedding-ada-002'' 0 = Inl (OtherException ''unavailable'')
   \<and> ex_down ''hi'' ''text-embedding-ada-002'' 1 = Inl (OtherException ''unavailable'')
   \<and> ex_down ''hi'' ''text-embedding-ada-002'' 2 = Inl (OtherException ''unavailable'')
   \<and> fst (get_embedding_async ex_down ''hi'') = []
   \<and> fst (snd (get_embedding_async ex_down ''hi'')) = 3
   \<and> ex_flaky ''hi'' ''text-embedding-ada-002'' 0 = Inl (OtherException ''timeout'')
   \<and> ex_flaky ''hi'' ''text-embedding-ada-002'' 1 = Inl (OtherException ''timeout'')
   \<and> ex_flaky ''hi'' ''text-embedding-ada-002'' 2 = Inr [1, 0]
   \<and> fst (get_embedding_async ex_flaky ''hi'') = [1, 0]"
proof -
  have "fst (get_embedding_async ex_down ''hi'') = []
        \<and> fst (snd (get_embedding_async ex_down ''hi'')) = 3"
    using get_embedding_async_three_tries [of ex_down "''hi''"]
    by (auto simp: ex_down_def split: prod.splits)
  moreover have "fst (get_embedding_async ex_flaky ''hi'') = [1, 0]"
    using get_embedding_async_three_tries [of ex_flaky "''hi''"]
    by (auto simp: ex_flaky_def split: prod.splits if_splits)
  ultimately show ?thesis
    by (simp add: ex_down_def ex_flaky_def)
qed

subsection \<open>The conversation registry\<close>

text \<open>A second lookup of the same member returns the same reference and leaves the registry
  as it is.\<close>

lemma get_conversation_same_member:
  assumes "get_conversation self member = (r, self')"
  shows "get_conversation self' member = (r, self')"
proof (cases "conversations self (conversation_key member)")
  case None
  with assms have "r = length (heap self)"
    and "self' = self\<lparr>conversations := (conversations self)(conversation_key member \<mapsto> length (heap self)),
                      heap := heap self @ [Conversation_new]\<rparr>"
    by (auto simp: get_conversation_def)
  then show ?thesis
    by (simp add: get_conversation_def)
next
  case (Some r')
  with assms have "r = r'" and "self' = self"
    by (simp_all add: get_conversation_def)
  with Some show ?thesis
    by (simp add: get_conversation_def)
qed

lemma ex_keys:
  "conversation_key ex_member_a = ''12345678901234567890123456789012345''"
  "conversation_key ex_member_b = ''12345678901234567890123456789012345''"
  by (simp_all add: conversation_key_def ex_member_a_def ex_member_b_def str_int_def
      str_nat.simps digit_char_def)

text \<open>
  Claim C3 asks for distinct Conversation instances for distinct (user, guild) pairs. The key
  is the two decimal ids written one after the other with nothing between them, so the two
  sample members, which differ in both ids, have the same key: the lookup of the second
  member creates nothing and returns the reference 0 that the first lookup created. Both
  members read and write the one Conversation object of the heap.
\<close>

theorem get_conversation_key_collision:
  "ex_member_a \<noteq> ex_member_b
   \<and> conversation_key ex_member_a = ''12345678901234567890123456789012345''
   \<and> conversation_key ex_member_b = ''12345678901234567890123456789012345''
   \<and> get_conversation Conversations_new ex_member_a
       = (0, \<lparr>conversations = [''12345678901234567890123456789012345'' \<mapsto> 0],
               heap = [Conversation_new]\<rparr>)
   \<and> get_conversation (snd (get_conversation Conversations_new ex_member_a)) ex_member_b
       = (0, \<lparr>conversations = [''12345678901234567890123456789012345'' \<mapsto> 0],
               heap = [Conversation_new]\<rparr>)"
proof -
  have diff: "ex_member_a \<noteq> ex_member_b"
    by (simp add: ex_member_a_def ex_member_b_def)
  have same: "conversation_key ex_member_a = conversation_key ex_member_b"
    by (simp only: ex_keys)
  have first: "get_conversation Conversations_new ex_member_a
       = (0, \<lparr>conversations = [conversation_key ex_member_a \<mapsto> 0], heap = [Conversation_new]\<rparr>)"
    by (simp add: get_conversation_def Conversations_new_def)
  have second: "get_conversation
          \<lparr>conversations = [conversation_key ex_member_a \<mapsto> 0], heap = [Conversation_new]\<rparr>
          ex_member_b
       = (0, \<lparr>conversations = [conversation_key ex_member_a \<mapsto> 0], heap = [Conversation_new]\<rparr>)"
    by (simp add: get_conversation_def same)
  show ?thesis
    using diff first second by (simp add: ex_keys)
qed

subsection \<open>Constructing a policy\<close>

lemma max_tokens_fold:
  "max_tokens (fold set_field kwargs g)
     = last (max_tokens g
             # List.map_filter (\<lambda>k. case k of K_max_tokens v \<Rightarrow> Some v | _ \<Rightarrow> None) kwargs)"
proof (induction kwargs arbitrary: g)
  case Nil
  then show ?case by (simp add: List.map_filter_simps)
next
  case (Cons k kwargs)
  show ?case
    by (cases k) (simp_all add: Cons.IH List.map_filter_simps)
qed

text \<open>
  Claim C8, as amended. Constructing a policy from well-typed keyword arguments never fails,
  whatever the values are: the stored \<open>max_tokens\<close> is the one given (the last one, if the
  list names the field twice), negative or not, and the default 4000 when none is given.
\<close>

theorem GuildSettings_init_unchecked:
  "\<exists>g. GuildSettings_init kwargs = Inr g
      \<and> max_tokens g
          = last (4000 # List.map_filter (\<lambda>k. case k of K_max_tokens v \<Rightarrow> Some v | _ \<Rightarrow> None) kwargs)"
  by (simp add: GuildSettings_init_def max_tokens_fold GuildSettings_default_def)

theorem GuildSettings_init_unchecked_witness:
  "\<exists>g. GuildSettings_init [K_max_tokens 100, K_top_n 1, K_max_tokens (- 7)] = Inr g
      \<and> max_tokens g = - 7"
  using GuildSettings_init_unchecked [of "[K_max_tokens 100, K_top_n 1, K_max_tokens (- 7)]"]
  by (simp add: List.map_filter_simps)

text \<open>Claim C8 as stated fails: a policy with \<open>max_tokens = -1\<close> is constructed without an
  error.\<close>

theorem GuildSettings_init_negative_max_tokens:
  "GuildSettings_init [K_max_tokens (- 1)] = Inr (GuildSettings_default \<lparr> max_tokens := - 1 \<rparr>)"
  by (simp add: GuildSettings_init_def)

subsection \<open>Preparing the chat\<close>

lemma pop_oldest_exit:
  "(\<exists>k. pop_oldest encode conf objs refs = drop k refs)
   \<and> (over_budget encode conf objs (pop_oldest encode conf objs refs) \<longrightarrow>
        length (pop_oldest encode conf objs refs) \<le> 1)"
proof (induction encode conf objs refs rule: pop_oldest.induct)
  case (1 encode conf objs refs)
  show ?case
  proof (cases "over_budget encode conf objs refs \<and> 1 < length refs")
    case True
    then have step: "pop_oldest encode conf objs refs = pop_oldest encode conf objs (tl refs)"
      by (subst pop_oldest.simps) simp
    from "1.IH" [OF True] obtain k where
      k: "pop_oldest encode conf objs (tl refs) = drop k (tl refs)"
      and small: "over_budget encode conf objs (pop_oldest encode conf objs (tl refs)) \<longrightarrow>
                    length (pop_oldest encode conf objs (tl refs)) \<le> 1"
      by blast
    have "pop_oldest encode conf objs refs = drop (Suc k) refs"
      using k step by (simp add: drop_Suc)
    then show ?thesis
      using small step by auto
  next
    case False
    then have stop: "pop_oldest encode conf objs refs = refs"
      by (subst pop_oldest.simps) auto
    have "pop_oldest encode conf objs refs = drop 0 refs"
      using stop by simp
    then show ?thesis
      using False stop by (metis not_less)
  qed
qed

lemma pop_oldest_survivor:
  assumes "pop_oldest encode conf objs [0 ..< n] = a # rest"
    and "over_budget encode conf objs (a # rest)"
  shows "rest = [] \<and> n = Suc a"
proof -
  note exit = pop_oldest_exit [of encode conf objs "[0 ..< n]"]
  from exit obtain k where "pop_oldest encode conf objs [0 ..< n] = drop k [0 ..< n]"
    by blast
  with assms(1) have k: "a # rest = [k ..< n]"
    by (simp add: drop_upt)
  from exit assms have "length (a # rest) \<le> 1"
    by simp
  then have rest: "rest = []" by simp
  from k [symmetric] have "k < n" and "a = k"
    by (auto simp: upt_eq_Cons_conv)
  moreover have "n - k = 1"
  proof -
    from k rest have "length [k ..< n] = length [a]" by simp
    then show ?thesis by simp
  qed
  ultimately have "n = Suc a" by simp
  with rest show ?thesis by simp
qed

text \<open>What the caller reads through the store: the new dicts, then the store itself.\<close>

lemma resolve_prepared:
  "map (deref objs)
     ((if sp \<noteq> [] then [Fresh \<lparr>role = ''system'', content = sp\<rparr>] else [])
      @ (if ip \<noteq> [] then [Fresh \<lparr>role = ''user'', content = ip\<rparr>] else [])
      @ map Ref [0 ..< length objs])
   = (if sp \<noteq> [] then [\<lparr>role = ''system'', content = sp\<rparr>] else [])
     @ (if ip \<noteq> [] then [\<lparr>role = ''user'', content = ip\<rparr>] else [])
     @ objs"
proof -
  have "map (deref objs) (map Ref [0 ..< length objs]) = objs"
    by (simp add: comp_def map_nth)
  then show ?thesis
    by simp
qed

text \<open>The four ways out of \<^verbatim>\<open>prepare_chat\<close>.\<close>

lemma prepare_chat_within_budget:
  assumes "\<not> over_budget encode conf (messages c)
               (pop_oldest encode conf (messages c) [0 ..< length (messages c)])"
  shows "fst (prepare_chat encode decode c conf sp ip)
           = Inr ((if sp \<noteq> [] then [\<lparr>role = ''system'', content = sp\<rparr>] else [])
                  @ (if ip \<noteq> [] then [\<lparr>role = ''user'', content = ip\<rparr>] else [])
                  @ messages c)"
  unfolding prepare_chat_def Let_def
  by (simp only: assms if_False fst_conv resolve_prepared)


lemma prepare_chat_no_message:
  assumes "over_budget encode conf (messages c)
             (pop_oldest encode conf (messages c) [0 ..< length (messages c)])"
    and "pop_oldest encode conf (messages c) [0 ..< length (messages c)] = []"
  shows "fst (prepare_chat encode decode c conf sp ip) = Inl IndexError"
  unfolding prepare_chat_def Let_def
  using assms(1) by (simp only: assms(2) if_True list.case fst_conv)

lemma prepare_chat_no_chunk:
  assumes "over_budget encode conf (messages c)
             (pop_oldest encode conf (messages c) [0 ..< length (messages c)])"
    and "pop_oldest encode conf (messages c) [0 ..< length (messages c)] = a # rest"
    and "token_pagify encode decode (content (messages c ! a))
           (py_round (of_int (max_tokens conf) * 0.9)) = []"
  shows "fst (prepare_chat encode decode c conf sp ip) = Inl IndexError"
  unfolding prepare_chat_def Let_def
  using assms(1) by (simp only: assms(2,3) if_True list.case fst_conv)

lemma prepare_chat_truncated:
  assumes "over_budget encode conf (messages c)
             (pop_oldest encode conf (messages c) [0 ..< length (messages c)])"
    and "pop_oldest encode conf (messages c) [0 ..< length (messages c)] = a # rest"
    and "token_pagify encode decode (content (messages c ! a))
           (py_round (of_int (max_tokens conf) * 0.9)) = chunk # others"
  shows "fst (prepare_chat encode decode c conf sp ip)
           = Inr ((if sp \<noteq> [] then [\<lparr>role = ''system'', content = sp\<rparr>] else [])
                  @ (if ip \<noteq> [] then [\<lparr>role = ''user'', content = ip\<rparr>] else [])
                  @ (messages c)[a := (messages c ! a)\<lparr>content := chunk\<rparr>])"
  unfolding prepare_chat_def Let_def
  using assms(1)
  by (simp only: assms(2,3) if_True list.case fst_conv
        resolve_prepared [of "(messages c)[a := (messages c ! a)\<lparr>content := chunk\<rparr>]",
                          unfolded length_list_update])


lemma pop_oldest_Nil: "pop_oldest encode conf objs [] = []"
  by (subst pop_oldest.simps) simp

text \<open>
  Claim C1 asks that the returned sequence stays within the token budget. The returned list
  is filled before the loop drops anything and the loop pops from the stored list only, so
  for every encoding: whenever \<^verbatim>\<open>prepare_chat\<close> returns, the returned sequence is the fixed
  prompt turns followed by one turn for every message stored at entry, and all of them but
  the last are unchanged. Dropping the oldest messages never shortens what is returned; only
  the write into the surviving dict shows in it.
\<close>

theorem prepare_chat_returns_whole_history:
  assumes "fst (prepare_chat encode decode c conf sp ip) = Inr out"
  shows "let fixed = (if sp \<noteq> [] then [\<lparr>role = ''system'', content = sp\<rparr>] else [])
                     @ (if ip \<noteq> [] then [\<lparr>role = ''user'', content = ip\<rparr>] else [])
         in length out = length fixed + length (messages c)
            \<and> butlast out = butlast (fixed @ messages c)"
proof -
  let ?objs = "messages c"
  let ?refs = "pop_oldest encode conf ?objs [0 ..< length ?objs]"
  let ?fixed = "(if sp \<noteq> [] then [\<lparr>role = ''system'', content = sp\<rparr>] else [])
                @ (if ip \<noteq> [] then [\<lparr>role = ''user'', content = ip\<rparr>] else [])"
  have "\<exists>ms. out = ?fixed @ ms \<and> length ms = length ?objs
              \<and> (ms = [] \<longleftrightarrow> ?objs = []) \<and> butlast ms = butlast ?objs"
  proof (cases "over_budget encode conf ?objs ?refs")
    case False
    from prepare_chat_within_budget [OF False, of decode sp ip] assms
    have "out = ?fixed @ ?objs" by simp
    then show ?thesis by blast
  next
    case True
    show ?thesis
    proof (cases ?refs)
      case Nil
      from prepare_chat_no_message [OF True Nil, of decode sp ip] assms
      show ?thesis by simp
    next
      case (Cons a rest)
      from True Cons have "over_budget encode conf ?objs (a # rest)" by simp
      from pop_oldest_survivor [OF Cons this] have size: "length ?objs = Suc a" by simp
      show ?thesis
      proof (cases "token_pagify encode decode (content (?objs ! a))
                      (py_round (of_int (max_tokens conf) * 0.9))")
        case Nil
        from prepare_chat_no_chunk [OF True Cons Nil, of sp ip] assms
        show ?thesis by simp
      next
        case chunks: (Cons chunk others)
        let ?objs' = "?objs[a := (?objs ! a)\<lparr>content := chunk\<rparr>]"
        from prepare_chat_truncated [OF True Cons chunks, of sp ip] assms
        have "out = ?fixed @ ?objs'" by simp
        moreover have "butlast ?objs' = butlast ?objs"
          using size by (simp add: butlast_list_update)
        moreover have "length ?objs' = length ?objs" by simp
        moreover have "?objs' = [] \<longleftrightarrow> ?objs = []" by simp
        ultimately show ?thesis by blast
      qed
    qed
  qed
  then obtain ms where ms: "out = ?fixed @ ms" "length ms = length ?objs"
      "ms = [] \<longleftrightarrow> ?objs = []" "butlast ms = butlast ?objs"
    by blast
  have "length out = length ?fixed + length ?objs"
    using ms(1,2) by simp
  moreover have "butlast out = butlast (?fixed @ ?objs)"
    using ms(1,3,4) by (simp only: butlast_append split: if_splits)
  ultimately show ?thesis
    by (simp only: Let_def)
qed

text \<open>
  Claim C2 asks that \<^verbatim>\<open>prepare_chat\<close> never raises. For a conversation without messages and
  a policy whose two prompts alone count more than \<open>0.95 * max_tokens\<close> tokens, the loop does
  not run, the budget test succeeds and \<^verbatim>\<open>self.messages[0]\<close> raises \<^verbatim>\<open>IndexError\<close>.
\<close>

theorem prepare_chat_empty_history_raises:
  assumes "messages c = []"
    and "of_int (max_tokens conf) * 0.95
           < (of_int (num_tokens_from_string encode (system_prompt conf @ prompt conf)) :: rat)"
  shows "fst (prepare_chat encode decode c conf sp ip) = Inl IndexError"
proof -
  have refs: "pop_oldest encode conf (messages c) [0 ..< length (messages c)] = []"
    using assms(1) by (simp add: pop_oldest_Nil)
  have "over_budget encode conf (messages c) []"
    using assms(2)
    by (simp add: over_budget_def conversation_token_count_def user_token_count_def
          num_tokens_from_string_def)
  then have "over_budget encode conf (messages c)
               (pop_oldest encode conf (messages c) [0 ..< length (messages c)])"
    by (simp only: refs)
  from prepare_chat_no_message [OF this refs] show ?thesis .
qed


text \<open>The sample conversation under a budget of 10 tokens: two messages are popped from
  the stored list, and all three are returned.\<close>

lemma ex_long_pop:
  "pop_oldest char_encode ex_tight (messages ex_long) [0 ..< length (messages ex_long)] = [2]"
proof -
  have "[0 ..< length (messages ex_long)] = [0, 1, 2]"
    by (simp add: ex_long_def upt_rec)
  moreover have "pop_oldest char_encode ex_tight (messages ex_long) [0, 1, 2]
          = pop_oldest char_encode ex_tight (messages ex_long) [1, 2]"
    by (subst pop_oldest.simps)
       (simp add: over_budget_def conversation_token_count_def user_token_count_def
          num_tokens_from_string_def char_encode_def ex_tight_def ex_long_def)
  moreover have "pop_oldest char_encode ex_tight (messages ex_long) [1, 2]
          = pop_oldest char_encode ex_tight (messages ex_long) [2]"
    by (subst pop_oldest.simps)
       (simp add: over_budget_def conversation_token_count_def user_token_count_def
          num_tokens_from_string_def char_encode_def ex_tight_def ex_long_def)
  moreover have "pop_oldest char_encode ex_tight (messages ex_long) [2] = [2]"
    by (subst pop_oldest.simps) simp
  ultimately show ?thesis by simp
qed

lemma ex_long_run:
  "prepare_chat char_encode char_decode ex_long ex_tight [] []
     = (Inr [\<lparr>role = ''user'', content = ''one two three four five six seven eight nine ten''\<rparr>,
             \<lparr>role = ''assistant'', content = ''ten nine eight seven six five four three two one''\<rparr>,
             \<lparr>role = ''user'', content = ''ok''\<rparr>],
        \<lparr>messages = [\<lparr>role = ''user'', content = ''ok''\<rparr>], last_updated = 1000\<rparr>)"
proof -
  have within: "\<not> over_budget char_encode ex_tight (messages ex_long) [2]"
    by (simp add: over_budget_def conversation_token_count_def user_token_count_def
          num_tokens_from_string_def char_encode_def ex_tight_def ex_long_def)
  have objs: "map (deref (messages ex_long)) (map Ref [0 ..< length (messages ex_long)])
                = messages ex_long"
    by (simp add: comp_def map_nth)
  show ?thesis
    unfolding prepare_chat_def Let_def ex_long_pop
    using within by (simp add: objs) (simp add: ex_long_def)
qed

text \<open>A single message over the budget is cut to its first chunk of \<open>round(0.9 * 10) = 9\<close>
  tokens; the write goes to the shared dict and shows in the returned list.\<close>

lemma ex_single_run:
  "prepare_chat char_encode char_decode ex_single ex_tight [] []
     = (Inr [\<lparr>role = ''user'', content = ''one two t''\<rparr>],
        \<lparr>messages = [\<lparr>role = ''user'', content = ''one two t''\<rparr>], last_updated = 1000\<rparr>)"
proof -
  have refs: "pop_oldest char_encode ex_tight (messages ex_single)
                [0 ..< length (messages ex_single)] = [0]"
    by (subst pop_oldest.simps) (simp add: ex_single_def)
  have over: "over_budget char_encode ex_tight (messages ex_single) [0]"
    by (simp add: over_budget_def conversation_token_count_def user_token_count_def
          num_tokens_from_string_def char_encode_def ex_tight_def ex_single_def)
  have nine: "py_round (of_int (max_tokens ex_tight) * 0.9) = 9"
    by (simp add: py_round_def ex_tight_def)
  have chunks: "token_pagify char_encode char_decode (content (messages ex_single ! 0)) 9
                  = [''one two t'', ''hree four'', '' five six'', '' seven ei'', ''ght nine '', ''ten'']"
    by (simp add: token_pagify_def token_chunks_of_def char_encode_def char_decode_def
          ex_single_def)
  show ?thesis
    unfolding prepare_chat_def Let_def refs nine
    using over by (simp add: chunks) (simp add: ex_single_def)
qed

theorem prepare_chat_returns_whole_history_witness:
  "fst (prepare_chat char_encode char_decode ex_long ex_tight [] [])
     = Inr [\<lparr>role = ''user'', content = ''one two three four five six seven eight nine ten''\<rparr>,
            \<lparr>role = ''assistant'', content = ''ten nine eight seven six five four three two one''\<rparr>,
            \<lparr>role = ''user'', content = ''ok''\<rparr>]
   \<and> messages (snd (prepare_chat char_encode char_decode ex_long ex_tight [] []))
       = [\<lparr>role = ''user'', content = ''ok''\<rparr>]
   \<and> max_tokens ex_tight = 10
   \<and> num_tokens_from_string char_encode
       (''one two three four five six seven eight nine ten''
        @ ''ten nine eight seven six five four three two one'' @ ''ok'') = 98
   \<and> length [\<lparr>role = ''user'', content = ''one two three four five six seven eight nine ten''\<rparr>,
              \<lparr>role = ''assistant'', content = ''ten nine eight seven six five four three two one''\<rparr>,
              \<lparr>role = ''user'', content = ''ok''\<rparr>]
       = length (messages ex_long)"
proof -
  have ret: "fst (prepare_chat char_encode char_decode ex_long ex_tight [] [])
     = Inr [\<lparr>role = ''user'', content = ''one two three four five six seven eight nine ten''\<rparr>,
            \<lparr>role = ''assistant'', content = ''ten nine eight seven six five four three two one''\<rparr>,
            \<lparr>role = ''user'', content = ''ok''\<rparr>]"
    by (simp add: ex_long_run)
  have budget: "max_tokens ex_tight = 10"
    by (simp add: ex_tight_def)
  have count: "num_tokens_from_string char_encode
       (''one two three four five six seven eight nine ten''
        @ ''ten nine eight seven six five four three two one'' @ ''ok'') = 98"
    by (simp add: num_tokens_from_string_def char_encode_def)
  show ?thesis
    using prepare_chat_returns_whole_history [OF ret] ret budget count
    by (simp add: ex_long_run Let_def)
qed

theorem prepare_chat_empty_history_raises_witness:
  "messages Conversation_new = []
   \<and> of_int (max_tokens ex_small_budget) * 0.95
       < (of_int (num_tokens_from_string char_encode
                   (system_prompt ex_small_budget @ prompt ex_small_budget)) :: rat)
   \<and> fst (prepare_chat char_encode char_decode Conversation_new ex_small_budget [] ''hello'')
       = Inl IndexError"
proof -
  have empty: "messages Conversation_new = []"
    by (simp add: Conversation_new_def)
  have over: "of_int (max_tokens ex_small_budget) * 0.95
       < (of_int (num_tokens_from_string char_encode
                   (system_prompt ex_small_budget @ prompt ex_small_budget)) :: rat)"
    by (simp add: ex_small_budget_def GuildSettings_default_def num_tokens_from_string_def
          char_encode_def)
  show ?thesis
    using prepare_chat_empty_history_raises [OF empty over, of char_decode "[]" "''hello''"]
          empty over
    by simp
qed

end
